theory Spec2Isabelle
  imports Complex_Main
begin

section \<open>Numbers\<close>

text \<open>
  The program computes with Go's \<^verbatim>\<open>float64\<close> and \<^verbatim>\<open>int\<close>. Here a \<^verbatim>\<open>float64\<close> is a
  real number and every operation is exact: the model covers finite values and leaves
  rounding, infinities and NaN out. Pixel sizes are mathematical integers; the conversion
  \<^verbatim>\<open>float64(n)\<close> is \<open>of_int\<close>. A division by a zero pixel size, which gives an infinity or
  NaN in Go, is therefore outside the model (HOL's \<open>x / 0\<close> is \<open>0\<close>); the theorems on the
  walk over the tiles assume positive pixel sizes of the full map.
\<close>

text \<open>Truncation towards zero, as \<^verbatim>\<open>math.Mod\<close> uses it.\<close>

definition trunc :: "real \<Rightarrow> int" where
  "trunc x = (if 0 \<le> x then \<lfloor>x\<rfloor> else - \<lfloor>- x\<rfloor>)"

text \<open>
  \<^verbatim>\<open>math.Mod(x, y)\<close> of Go's standard library: the remainder of \<open>x / y\<close> whose magnitude is
  less than \<open>y\<close> and whose sign agrees with that of \<open>x\<close>.
\<close>

definition math_Mod :: "real \<Rightarrow> real \<Rightarrow> real" where
  "math_Mod x y = x - y * of_int (trunc (x / y))"

section \<open>Longitudes\<close>

text \<open>
  \<^verbatim>\<open>
  func normEasting(deg float64) float64 {
      // go's Mod fcn preserves sign on first param
      if deg < -180 { return math.Mod(deg+180, 360) + 180 }
      if deg > 180 { return math.Mod(deg-180, 360) - 180 }
      return deg
  }
  \<close>
\<close>

definition normEasting :: "real \<Rightarrow> real" where
  "normEasting deg =
     (if deg < -180 then math_Mod (deg + 180) 360 + 180
      else if deg > 180 then math_Mod (deg - 180) 360 - 180
      else deg)"

text \<open>
  \<^verbatim>\<open>
  func eastDelta(e, w float64) float64 {
      e = normEasting(e)
      w = normEasting(w)
      if e < w { return 360 + e - w }
      return e - w
  }
  \<close>
\<close>

definition eastDelta :: "real \<Rightarrow> real \<Rightarrow> real" where
  "eastDelta e w =
     (let e' = normEasting e; w' = normEasting w
      in if e' < w' then 360 + e' - w' else e' - w')"

section \<open>Map tiles\<close>

text \<open>
  The bounding box is a \<^verbatim>\<open>[4]float64\<close> (a \<^verbatim>\<open>[]float64\<close> in \<^verbatim>\<open>getBox\<close>) read and written
  through four index constants; it is a list here, with the same indices.
\<close>

definition north :: nat where "north = 0"
definition south :: nat where "south = 1"
definition east :: nat where "east = 2"
definition west :: nat where "west = 3"

record mapTile =
  fpath :: string
  width :: int
  height :: int
  box :: "real list"

text \<open>Every way the modelled functions fail: panics and returned errors.\<close>

datatype error =
    Panic
  | NameFormat
  | ParseDegrees
  | LatitudeRange
  | NotExist
  | ExecFailed
  | NotTwoInts
  | AtoiSyntax
  | AtoiRange

text \<open>
  \<^verbatim>\<open>
  func NewMapTile(fpath string, pixWid, pixHigh int, n, s, e, w float64) *mapTile {
      if n > 90 || s < -90 || n < s {
          panic("No crossing a pole and map's North must be greater than South")
      }
      rv := &mapTile{fpath: fpath, width: pixWid, height: pixHigh,
          box: [4]float64{n, s, normEasting(e), normEasting(w)}}
      return rv
  }
  \<close>
\<close>

definition NewMapTile ::
  "string \<Rightarrow> int \<Rightarrow> int \<Rightarrow> real \<Rightarrow> real \<Rightarrow> real \<Rightarrow> real \<Rightarrow> error + mapTile" where
  "NewMapTile fp pixWid pixHigh n s e w =
     (if n > 90 \<or> s < -90 \<or> n < s then Inl Panic
      else Inr \<lparr>fpath = fp, width = pixWid, height = pixHigh,
                box = [n, s, normEasting e, normEasting w]\<rparr>)"

text \<open>
  \<^verbatim>\<open>
  func delta(tileWidth, tileHeight int, box [4]float64, totWidth, totHeight int)
          (nsDeltaDeg float64, ewDeltaDeg float64) {
      nsDeltaDeg = (float64(tileHeight) / float64(totHeight)) * (box[north] - box[south])
      ewDeg := eastDelta(box[east], box[west])
      ewDeltaDeg = (float64(tileWidth) / float64(totWidth)) * ewDeg
      return
  }
  \<close>
\<close>

definition delta :: "int \<Rightarrow> int \<Rightarrow> real list \<Rightarrow> int \<Rightarrow> int \<Rightarrow> real \<times> real" where
  "delta tileWidth tileHeight bx totWidth totHeight =
     (let nsDeltaDeg = (of_int tileHeight / of_int totHeight) * (bx ! north - bx ! south);
          ewDeg = eastDelta (bx ! east) (bx ! west);
          ewDeltaDeg = (of_int tileWidth / of_int totWidth) * ewDeg
      in (nsDeltaDeg, ewDeltaDeg))"

text \<open>
  \<^verbatim>\<open>
  func finishTileBox(tile, fullMap *mapTile) {
      nsDeltaDeg, ewDeltaDeg := delta(tile.width, tile.height, fullMap.box,
          fullMap.width, fullMap.height)
      tile.box[south] = tile.box[north] - nsDeltaDeg
      tile.box[east] = tile.box[west] + ewDeltaDeg
  }
  \<close>
  The tile is updated in place; the model returns the updated tile.
\<close>

definition finishTileBox :: "mapTile \<Rightarrow> mapTile \<Rightarrow> mapTile" where
  "finishTileBox tile fullMap =
     (case delta (width tile) (height tile) (box fullMap) (width fullMap) (height fullMap) of
        (nsDeltaDeg, ewDeltaDeg) \<Rightarrow>
          (let b1 = (box tile)[south := box tile ! north - nsDeltaDeg];
               b2 = b1[east := b1 ! west + ewDeltaDeg]
           in tile\<lparr>box := b2\<rparr>))"

section \<open>Strings\<close>

text \<open>
  Functions of Go's standard library that the program calls, for the separators it uses
  (a one-character separator, Unix paths). \<^verbatim>\<open>strings.Split\<close> and \<^verbatim>\<open>bytes.Split\<close> cut at
  every separator and always return at least one piece.
\<close>

fun strings_Split :: "string \<Rightarrow> char \<Rightarrow> string list" where
  "strings_Split [] sep = [[]]"
| "strings_Split (x # xs) sep =
     (if x = sep then [] # strings_Split xs sep
      else (case strings_Split xs sep of
              [] \<Rightarrow> [[x]]
            | p # ps \<Rightarrow> (x # p) # ps))"

text \<open>The text before and after the first separator, if there is one.\<close>

fun cut :: "string \<Rightarrow> char \<Rightarrow> (string \<times> string) option" where
  "cut [] sep = None"
| "cut (x # xs) sep =
     (if x = sep then Some ([], xs)
      else (case cut xs sep of
              None \<Rightarrow> None
            | Some (a, b) \<Rightarrow> Some (x # a, b)))"

text \<open>
  \<^verbatim>\<open>strings.SplitN(s, sep, n)\<close> for \<open>n \<ge> 0\<close>: at most \<open>n\<close> pieces, the last one the
  unsplit rest; no piece at all for \<open>n = 0\<close>.
\<close>

fun strings_SplitN :: "string \<Rightarrow> char \<Rightarrow> nat \<Rightarrow> string list" where
  "strings_SplitN s sep 0 = []"
| "strings_SplitN s sep (Suc 0) = [s]"
| "strings_SplitN s sep (Suc (Suc n)) =
     (case cut s sep of
        None \<Rightarrow> [s]
      | Some (a, b) \<Rightarrow> a # strings_SplitN b sep (Suc n))"

text \<open>
  \<^verbatim>\<open>filepath.Base\<close> on Unix: the last element of the path, trailing slashes removed first;
  \<^verbatim>\<open>"."\<close> for the empty path and \<^verbatim>\<open>"/"\<close> for a path of slashes only.
\<close>

definition filepath_Base :: "string \<Rightarrow> string" where
  "filepath_Base path =
     (if path = [] then ''.''
      else (let p = rev (dropWhile (\<lambda>c. c = CHR ''/'') (rev path));
                b = rev (takeWhile (\<lambda>c. c \<noteq> CHR ''/'') (rev p))
            in if b = [] then ''/'' else b))"

definition isDigit :: "char \<Rightarrow> bool" where
  "isDigit c = (48 \<le> (of_char c :: int) \<and> (of_char c :: int) \<le> 57)"

text \<open>The value of a string of decimal digits, most significant digit first.\<close>

definition digitsVal :: "string \<Rightarrow> int" where
  "digitsVal ds = foldl (\<lambda>acc c. 10 * acc + (of_char c - 48)) 0 ds"

text \<open>An optional leading sign: whether it is a minus, and the rest.\<close>

definition signOf :: "string \<Rightarrow> bool \<times> string" where
  "signOf s =
     (case s of
        [] \<Rightarrow> (False, s)
      | c # r \<Rightarrow> if c = CHR ''-'' then (True, r)
                 else if c = CHR ''+'' then (False, r)
                 else (False, s))"

text \<open>
  \<^verbatim>\<open>strconv.Atoi\<close>: an optional sign and at least one decimal digit, nothing else; a value
  that does not fit Go's 64-bit \<^verbatim>\<open>int\<close> is a range error.
\<close>

definition Atoi :: "string \<Rightarrow> error + int" where
  "Atoi s =
     (case signOf s of
        (neg, ds) \<Rightarrow>
          if ds = [] \<or> \<not> list_all isDigit ds then Inl AtoiSyntax
          else (let v = (if neg then - digitsVal ds else digitsVal ds)
                in if v < - (2 ^ 63) \<or> 2 ^ 63 - 1 < v then Inl AtoiRange else Inr v))"

text \<open>
  \<^verbatim>\<open>strconv.ParseFloat\<close> is a parameter of \<^verbatim>\<open>getBox\<close> below. \<open>parseDecimal\<close> is its
  behaviour on plain decimal numerals (an optional sign, digits, an optional point and
  digits, at least one digit), which is all the file names of the examples use; every
  other string is rejected here, though \<^verbatim>\<open>ParseFloat\<close> also reads exponents, hexadecimal
  floats, infinities and NaN.
\<close>

definition parseDecimal :: "string \<Rightarrow> real option" where
  "parseDecimal s =
     (case signOf s of
        (neg, body) \<Rightarrow>
          (let ip = takeWhile isDigit body;
               rest = dropWhile isDigit body;
               fp = (case rest of [] \<Rightarrow> [] | c # r \<Rightarrow> r);
               ok = (case rest of
                       [] \<Rightarrow> True
                     | c # r \<Rightarrow> c = CHR ''.'' \<and> list_all isDigit r);
               v = of_int (digitsVal ip) + of_int (digitsVal fp) / 10 ^ length fp
           in if ok \<and> (ip \<noteq> [] \<or> fp \<noteq> []) then Some (if neg then - v else v)
              else None))"

section \<open>The bounding box of a file name\<close>

text \<open>
  \<^verbatim>\<open>
  func getBox(image string) (base string, box []float64, err error) {
      c := strings.Split(image, "_")
      if len(c) != 5 {
          err = fmt.Errorf("File name must include bounding box name_N_S_E_W.jpg ...")
          return
      }
      base = filepath.Base(c[0])
      for i := 1; i < 5; i++ {
          if i == 4 {
              s := strings.SplitN(c[i], ".", 3)
              if len(s) == 3 { c[i] = s[0] + "." + s[1] }
          }
          f, err := strconv.ParseFloat(c[i], 64)
          if err != nil {
              err = fmt.Errorf("Error parsing lat/long degrees in file name: %v", err)
              return "", nil, err
          }
          box = append(box, f)
      }
      if box[north] <= box[south] || box[north] > 90 || box[south] < -90 {
          return base, box, fmt.Errorf("North boundary must be greater than south ...")
      }
      return
  }
  \<close>
  The four fields that are parsed, the last one without its extension:
\<close>

definition lastField :: "string \<Rightarrow> string" where
  "lastField f =
     (let s = strings_SplitN f (CHR ''.'') 3
      in if length s = 3 then s ! 0 @ ''.'' @ s ! 1 else f)"

definition degreeFields :: "string list \<Rightarrow> string list" where
  "degreeFields c = [c ! 1, c ! 2, c ! 3, lastField (c ! 4)]"

text \<open>The loop: parse the fields in order and stop at the first that fails.\<close>

fun parseFields :: "(string \<Rightarrow> real option) \<Rightarrow> string list \<Rightarrow> error + real list" where
  "parseFields pf [] = Inr []"
| "parseFields pf (f # fs) =
     (case pf f of
        None \<Rightarrow> Inl ParseDegrees
      | Some v \<Rightarrow>
          (case parseFields pf fs of
             Inl e \<Rightarrow> Inl e
           | Inr vs \<Rightarrow> Inr (v # vs)))"

definition getBox :: "(string \<Rightarrow> real option) \<Rightarrow> string \<Rightarrow> error + string \<times> real list" where
  "getBox pf imageName =
     (let c = strings_Split imageName (CHR ''_'')
      in if length c \<noteq> 5 then Inl NameFormat
         else (let base = filepath_Base (c ! 0)
               in case parseFields pf (degreeFields c) of
                    Inl e \<Rightarrow> Inl e
                  | Inr bx \<Rightarrow>
                      if bx ! north \<le> bx ! south \<or> bx ! north > 90 \<or> bx ! south < -90
                      then Inl LatitudeRange
                      else Inr (base, bx)))"

section \<open>Pixel sizes of an image file\<close>

text \<open>
  \<^verbatim>\<open>
  func imageWxH(imageFilename string) (width int, height int, err error) {
      if _, err := os.Stat(imageFilename); os.IsNotExist(err) { return 0, 0, err }
      cmd := exec.Command(identifyProg, "-format", "%w %h", imageFilename)
      var b []byte
      b, err = cmd.Output()
      if err != nil { return 0, 0, err }
      wh := bytes.Split(b, []byte(" "))
      if len(wh) != 2 {
          return 0, 0, fmt.Errorf("Expected two ints separated by space, but got: %v", b)
      }
      width, err = strconv.Atoi(string(wh[0]))
      if err != nil { return }
      height, err = strconv.Atoi(string(wh[1]))
      if err != nil { return }
      return
  }
  \<close>
  The file system and ImageMagick are outside the program: whether the file exists and
  what \<^verbatim>\<open>cmd.Output()\<close> returns are arguments of the model.
\<close>

definition imageWxH :: "bool \<Rightarrow> error + string \<Rightarrow> error + int \<times> int" where
  "imageWxH fileExists output =
     (if \<not> fileExists then Inl NotExist
      else (case output of
              Inl err \<Rightarrow> Inl err
            | Inr b \<Rightarrow>
                (let wh = strings_Split b (CHR '' '')
                 in if length wh \<noteq> 2 then Inl NotTwoInts
                    else (case Atoi (wh ! 0) of
                            Inl err \<Rightarrow> Inl err
                          | Inr wid \<Rightarrow>
                              (case Atoi (wh ! 1) of
                                 Inl err \<Rightarrow> Inl err
                               | Inr high \<Rightarrow> Inr (wid, high))))))"

text \<open>
  The copy of \<^verbatim>\<open>imageWxH\<close> in \<^verbatim>\<open>src/cmd/kmz.go\<close>: it has no \<^verbatim>\<open>os.Stat\<close> test, and
  its last lines are
  \<^verbatim>\<open>
      width, err = strconv.Atoi(string(wh[0]))
      if err != nil { return }
      height, err = strconv.Atoi(string(wh[0]))
      if err != nil { return }
      return
  \<close>
\<close>

definition imageWxH_kmz :: "error + string \<Rightarrow> error + int \<times> int" where
  "imageWxH_kmz output =
     (case output of
        Inl err \<Rightarrow> Inl err
      | Inr b \<Rightarrow>
          (let wh = strings_Split b (CHR '' '')
           in if length wh \<noteq> 2 then Inl NotTwoInts
              else (case Atoi (wh ! 0) of
                      Inl err \<Rightarrow> Inl err
                    | Inr wid \<Rightarrow>
                        (case Atoi (wh ! 0) of
                           Inl err \<Rightarrow> Inl err
                         | Inr high \<Rightarrow> Inr (wid, high)))))"

text \<open>
  \<^verbatim>\<open>
  func NewMapTileFromFile(fpath string, n, s, e, w float64) (*mapTile, error) {
      wid, high, err := imageWxH(fpath)
      if err != nil { return nil, err }
      return NewMapTile(fpath, wid, high, n, s, e, w), nil
  }
  \<close>
  The first argument is what \<^verbatim>\<open>imageWxH(fpath)\<close> returns.
\<close>

definition NewMapTileFromFile ::
  "error + int \<times> int \<Rightarrow> string \<Rightarrow> real \<Rightarrow> real \<Rightarrow> real \<Rightarrow> real \<Rightarrow> error + mapTile" where
  "NewMapTileFromFile wxh fp n s e w =
     (case wxh of
        Inl err \<Rightarrow> Inl err
      | Inr (wid, high) \<Rightarrow> NewMapTile fp wid high n s e w)"

section \<open>The walk over the tiles\<close>

text \<open>
  The loop of \<^verbatim>\<open>process\<close> over the tile files, in the order of \<^verbatim>\<open>ioutil.ReadDir\<close>:
  \<^verbatim>\<open>
  var widthSum int
  currNorth := fixedMap.box[north]
  currWest := fixedMap.box[west]
  for _, tf := range tileFiles {
      tile, err := NewMapTileFromFile(filepath.Join(tilesDir, tf.Name()), currNorth, 0, 0, currWest)
      if err != nil { return err }
      finishTileBox(tile, fixedMap)
      ...
      if err = KMLAddOverlay(kdocWtr, tf.Name(), tile.box, drawingOrder, relTPath); err != nil {
          return err
      }
      widthSum += tile.width
      if widthSum >= fixedMap.width {
          // drop down a row
          currNorth = tile.box[south]
          currWest = fixedMap.box[west]
          widthSum = 0
      } else {
          currWest = tile.box[east]
      }
  }
  \<close>
  A tile file is its path with what \<^verbatim>\<open>imageWxH\<close> returns for it. The result is the list
  of the tiles handed to \<^verbatim>\<open>KMLAddOverlay\<close>, in order, or the error (or panic) that ends the
  loop; the writing of the KML document itself is not modelled. \<^verbatim>\<open>widthSum\<close> is an unbounded
  integer: it stays below the sum of two pixel widths.
\<close>

fun tileLoop ::
  "mapTile \<Rightarrow> (string \<times> (error + int \<times> int)) list \<Rightarrow> int \<Rightarrow> real \<Rightarrow> real
     \<Rightarrow> error + mapTile list" where
  "tileLoop fixedMap [] widthSum currNorth currWest = Inr []"
| "tileLoop fixedMap ((tf, wxh) # tfs) widthSum currNorth currWest =
     (case NewMapTileFromFile wxh tf currNorth 0 0 currWest of
        Inl err \<Rightarrow> Inl err
      | Inr tile0 \<Rightarrow>
          (let tile = finishTileBox tile0 fixedMap;
               widthSum' = widthSum + width tile;
               rest = (if widthSum' \<ge> width fixedMap
                       then tileLoop fixedMap tfs 0 (box tile ! south) (box fixedMap ! west)
                       else tileLoop fixedMap tfs widthSum' currNorth (box tile ! east))
           in case rest of
                Inl err \<Rightarrow> Inl err
              | Inr tiles \<Rightarrow> Inr (tile # tiles)))"

definition tileWalk ::
  "mapTile \<Rightarrow> (string \<times> (error + int \<times> int)) list \<Rightarrow> error + mapTile list" where
  "tileWalk fixedMap tileFiles =
     tileLoop fixedMap tileFiles 0 (box fixedMap ! north) (box fixedMap ! west)"

text \<open>
  The tile that one round of the loop produces from the pixel size \<open>(w, h)\<close> at the
  anchor \<open>(cn, cw)\<close>, when \<^verbatim>\<open>NewMapTile\<close> accepts the anchor.
\<close>

definition tileAt :: "mapTile \<Rightarrow> string \<Rightarrow> int \<Rightarrow> int \<Rightarrow> real \<Rightarrow> real \<Rightarrow> mapTile" where
  "tileAt p fp w h cn cw =
     \<lparr>fpath = fp, width = w, height = h,
      box = [cn,
             cn - (of_int h / of_int (height p)) * (box p ! north - box p ! south),
             normEasting cw + (of_int w / of_int (width p)) * eastDelta (box p ! east) (box p ! west),
             normEasting cw]\<rparr>"

section \<open>Properties of boxes and of grids\<close>

text \<open>The invariants of a bounding box: its latitudes and its normalized longitudes.\<close>

definition geoBoxOK :: "real list \<Rightarrow> bool" where
  "geoBoxOK bx =
     (length bx = 4 \<and> bx ! south < bx ! north \<and> bx ! north \<le> 90 \<and> - 90 \<le> bx ! south \<and>
      - 180 \<le> bx ! east \<and> bx ! east \<le> 180 \<and> - 180 \<le> bx ! west \<and> bx ! west \<le> 180)"

text \<open>What is asked of the box of every tile of the walk.\<close>

definition latOK :: "mapTile \<Rightarrow> bool" where
  "latOK t =
     (box t ! south \<le> box t ! north \<and>
      - 90 \<le> box t ! north \<and> box t ! north \<le> 90 \<and>
      - 90 \<le> box t ! south \<and> box t ! south \<le> 90)"

text \<open>
  Pixel sizes (width, height) in raster order, all positive, whose widths add up to exactly
  the full width \<open>W\<close> in every row; \<open>ws\<close> is the width of the tiles already in the current
  row.
\<close>

fun rowsFit :: "int \<Rightarrow> int \<Rightarrow> (int \<times> int) list \<Rightarrow> bool" where
  "rowsFit W ws [] = (ws = 0)"
| "rowsFit W ws ((w, h) # xs) =
     (0 < w \<and> 0 < h \<and> ws + w \<le> W \<and> rowsFit W (if ws + w < W then ws + w else 0) xs)"

text \<open>
  The heights stay inside the full height \<open>H\<close>: the height of a tile and the heights of
  the tiles that closed the rows above it (\<open>hs\<close>) are together at most \<open>H\<close>.
\<close>

fun heightsFit :: "int \<Rightarrow> int \<Rightarrow> int \<Rightarrow> int \<Rightarrow> (int \<times> int) list \<Rightarrow> bool" where
  "heightsFit W H ws hs [] = True"
| "heightsFit W H ws hs ((w, h) # xs) =
     (hs + h \<le> H \<and>
      (if ws + w < W then heightsFit W H (ws + w) hs xs else heightsFit W H 0 (hs + h) xs))"

text \<open>For each tile, whether it is the last one of its row.\<close>

fun rowEnds :: "int \<Rightarrow> int \<Rightarrow> (int \<times> int) list \<Rightarrow> bool list" where
  "rowEnds W ws [] = []"
| "rowEnds W ws ((w, h) # xs) =
     (ws + w \<ge> W) # rowEnds W (if ws + w < W then ws + w else 0) xs"

text \<open>
  Two consecutive tiles of one row share an edge: the west of the later one is the east of
  the earlier one, normalized (as \<^verbatim>\<open>NewMapTile\<close> stores it).
\<close>

fun sharedEdges :: "bool list \<Rightarrow> mapTile list \<Rightarrow> bool" where
  "sharedEdges (e # es) (t # u # ts) =
     ((e \<or> box u ! west = normEasting (box t ! east)) \<and> sharedEdges es (u # ts))"
| "sharedEdges es ts = True"

text \<open>The tile files of a list of pixel sizes: every \<^verbatim>\<open>imageWxH\<close> succeeds.\<close>

definition tileFilesOf :: "(int \<times> int) list \<Rightarrow> (string \<times> (error + int \<times> int)) list" where
  "tileFilesOf sizes = map (\<lambda>wh. (''tile.jpg'', Inr wh)) sizes"

section \<open>The longitude normalizer\<close>

lemma trunc_minus: "trunc (- x) = - trunc x"
  by (auto simp: trunc_def)

lemma math_Mod_minus: "math_Mod (- x) y = - math_Mod x y"
  by (simp add: math_Mod_def trunc_minus algebra_simps)

lemma math_Mod_nonneg:
  assumes "0 \<le> x" and "0 < y"
  shows "0 \<le> math_Mod x y \<and> math_Mod x y < y"
proof -
  let ?n = "\<lfloor>x / y\<rfloor>"
  have q: "0 \<le> x / y" using assms by simp
  have lo: "of_int ?n \<le> x / y" by (rule of_int_floor_le)
  have hi: "x / y < of_int ?n + 1" by linarith
  have "of_int ?n * y \<le> x"
    using lo by (simp only: pos_le_divide_eq[OF assms(2)])
  then have a: "y * of_int ?n \<le> x" by (simp only: mult.commute)
  have "x < (of_int ?n + 1) * y"
    using hi by (simp only: pos_divide_less_eq[OF assms(2)])
  then have b: "x < y * (of_int ?n + 1)" by (simp only: mult.commute)
  have m: "math_Mod x y = x - y * of_int ?n" using q by (simp add: math_Mod_def trunc_def)
  from a b show ?thesis unfolding m by (simp add: algebra_simps)
qed

lemma math_Mod_nonpos:
  assumes "x \<le> 0" and "0 < y"
  shows "- y < math_Mod x y \<and> math_Mod x y \<le> 0"
proof -
  have "0 \<le> math_Mod (- x) y \<and> math_Mod (- x) y < y"
    using assms by (intro math_Mod_nonneg) simp_all
  then show ?thesis by (simp add: math_Mod_minus)
qed

lemma math_Mod_sign: "0 < y \<Longrightarrow> 0 \<le> x * math_Mod x y \<and> \<bar>math_Mod x y\<bar> < y"
proof (cases "0 \<le> x")
  case True
  assume "0 < y"
  with True math_Mod_nonneg[of x y] show ?thesis by simp
next
  case False
  assume "0 < y"
  with False math_Mod_nonpos[of x y] show ?thesis by (simp add: mult_nonpos_nonpos)
qed

lemma normEasting_range: "- 180 \<le> normEasting deg \<and> normEasting deg \<le> 180"
proof -
  consider "deg < - 180" | "180 < deg" | "- 180 \<le> deg \<and> deg \<le> 180" by linarith
  then show ?thesis
  proof cases
    case 1
    then have "- 360 < math_Mod (deg + 180) 360 \<and> math_Mod (deg + 180) 360 \<le> 0"
      using math_Mod_nonpos[of "deg + 180" 360] by simp
    with 1 show ?thesis by (simp add: normEasting_def)
  next
    case 2
    then have "0 \<le> math_Mod (deg - 180) 360 \<and> math_Mod (deg - 180) 360 < 360"
      using math_Mod_nonneg[of "deg - 180" 360] by simp
    with 2 show ?thesis by (simp add: normEasting_def)
  next
    case 3
    then show ?thesis by (simp add: normEasting_def)
  qed
qed

lemma normEasting_congruent: "\<exists>k::int. normEasting deg = deg + 360 * of_int k"
proof -
  consider "deg < - 180" | "180 < deg" | "- 180 \<le> deg \<and> deg \<le> 180" by linarith
  then show ?thesis
  proof cases
    case 1
    then have "normEasting deg = deg + 360 * of_int (1 - trunc ((deg + 180) / 360))"
      by (simp add: normEasting_def math_Mod_def)
    then show ?thesis ..
  next
    case 2
    then have "normEasting deg = deg + 360 * of_int (- 1 - trunc ((deg - 180) / 360))"
      by (simp add: normEasting_def math_Mod_def)
    then show ?thesis ..
  next
    case 3
    then have "normEasting deg = deg + 360 * of_int 0" by (simp add: normEasting_def)
    then show ?thesis ..
  qed
qed

lemma normEasting_id: "- 180 \<le> deg \<Longrightarrow> deg \<le> 180 \<Longrightarrow> normEasting deg = deg"
  by (simp add: normEasting_def)

lemma normEasting_vectors:
  "normEasting 180 = 180 \<and> normEasting (- 180) = - 180 \<and> normEasting (- 185) = 175 \<and>
   normEasting (- 360) = 0 \<and> normEasting 360 = 0 \<and> normEasting 420 = 60 \<and>
   normEasting (- 420) = - 60"
  by (simp add: normEasting_def math_Mod_def trunc_def)

text \<open>
  C4. For every \<open>deg\<close>, \<open>normEasting deg\<close> lies in \<open>[-180, 180]\<close> and differs from
  \<open>deg\<close> by a whole multiple of 360. It is computed with the remainder \<open>math_Mod\<close>, which
  keeps the sign of its first argument and is smaller than 360 in magnitude. A \<open>deg\<close>
  already in \<open>[-180, 180]\<close> is returned unchanged, and the literal vectors hold:
  180 to 180, -180 to -180, -185 to 175, -360 to 0, 360 to 0, 420 to 60, -420 to -60.
\<close>

theorem normEasting_spec:
  "- 180 \<le> normEasting deg \<and> normEasting deg \<le> 180 \<and>
   (\<exists>k::int. normEasting deg = deg + 360 * of_int k) \<and>
   (deg < - 180 \<longrightarrow> normEasting deg = math_Mod (deg + 180) 360 + 180) \<and>
   (180 < deg \<longrightarrow> normEasting deg = math_Mod (deg - 180) 360 - 180) \<and>
   0 \<le> x * math_Mod x 360 \<and> \<bar>math_Mod x 360\<bar> < 360 \<and>
   (- 180 \<le> deg \<and> deg \<le> 180 \<longrightarrow> normEasting deg = deg) \<and>
   normEasting 180 = 180 \<and> normEasting (- 180) = - 180 \<and> normEasting (- 185) = 175 \<and>
   normEasting (- 360) = 0 \<and> normEasting 360 = 0 \<and> normEasting 420 = 60 \<and>
   normEasting (- 420) = - 60"
  using normEasting_range[of deg] normEasting_congruent[of deg] normEasting_vectors
    math_Mod_sign[of 360 x]
  by (simp add: normEasting_def)

text \<open>The theorem at -100 (unchanged), at -545 and at 545 (both reduced).\<close>

theorem normEasting_spec_witness:
  "- 180 \<le> (- 100 :: real) \<and> (- 100 :: real) \<le> 180 \<and> normEasting (- 100) = - 100 \<and>
   (- 545 :: real) < - 180 \<and> normEasting (- 545) = math_Mod (- 365) 360 + 180 \<and>
   (180 :: real) < 545 \<and> normEasting 545 = math_Mod 365 360 - 180"
  using normEasting_spec[of "- 100"] normEasting_spec[of "- 545"] normEasting_spec[of 545]
  by simp

section \<open>The span from west to east\<close>

lemma eastDelta_unfold:
  "eastDelta e w =
     (if normEasting w \<le> normEasting e then normEasting e - normEasting w
      else 360 + normEasting e - normEasting w)"
  by (simp add: eastDelta_def Let_def)

lemma eastDelta_range: "0 \<le> eastDelta e w \<and> eastDelta e w \<le> 360"
  using normEasting_range[of e] normEasting_range[of w]
  by (simp add: eastDelta_unfold)

lemma eastDelta_zero:
  "(eastDelta e w = 0) =
     (normEasting e = normEasting w \<or> (normEasting e = - 180 \<and> normEasting w = 180))"
  using normEasting_range[of e] normEasting_range[of w]
  by (auto simp: eastDelta_unfold)

lemma eastDelta_vectors:
  "eastDelta 10 0 = 10 \<and> eastDelta (- 100) (- 120) = 20 \<and> eastDelta 10 (- 10) = 20 \<and>
   eastDelta (- 170) 170 = 20 \<and> eastDelta 170 178 = 352"
  by (simp add: eastDelta_def normEasting_def)

text \<open>
  C3, as amended. \<open>eastDelta e w\<close> normalizes both longitudes and returns their difference
  if the normalized east is at least the normalized west, and 360 more than that otherwise.
  The result lies in \<open>[0, 360]\<close>; it is 0 exactly when the normalized longitudes are equal
  or the east is -180 and the west 180. The literal vectors hold: (10, 0) to 10,
  (-100, -120) to 20, (10, -10) to 20, (-170, 170) to 20 and (170, 178) to 352.
\<close>

theorem eastDelta_spec:
  "eastDelta e w =
     (if normEasting w \<le> normEasting e then normEasting e - normEasting w
      else 360 + normEasting e - normEasting w) \<and>
   0 \<le> eastDelta e w \<and> eastDelta e w \<le> 360 \<and>
   ((eastDelta e w = 0) =
      (normEasting e = normEasting w \<or> (normEasting e = - 180 \<and> normEasting w = 180))) \<and>
   eastDelta 10 0 = 10 \<and> eastDelta (- 100) (- 120) = 20 \<and> eastDelta 10 (- 10) = 20 \<and>
   eastDelta (- 170) 170 = 20 \<and> eastDelta 170 178 = 352"
  using eastDelta_unfold[of e w] eastDelta_range[of e w] eastDelta_zero[of e w] eastDelta_vectors
  by simp

text \<open>
  C3 as stated puts the result in \<open>(0, 360]\<close>: equal longitudes give 0.
\<close>

theorem eastDelta_positive_counterexample:
  "eastDelta 10 10 = 0 \<and> \<not> (0 < eastDelta 10 10 \<and> eastDelta 10 10 \<le> 360)"
  by (simp add: eastDelta_def normEasting_def)

section \<open>Construction of a map tile\<close>

text \<open>
  C6, as amended. \<open>NewMapTile\<close> panics exactly when north is less than south, or north is
  greater than 90, or south is less than -90; otherwise it returns the tile with the
  longitudes normalized. A box that touches both poles (north 90, south -90) is accepted;
  north 49.4 with south 60 is rejected, and so is north 91 with south 0.
\<close>

theorem NewMapTile_panics:
  "(NewMapTile fp pixWid pixHigh n s e w = Inl Panic) = (n < s \<or> 90 < n \<or> s < - 90) \<and>
   (NewMapTile fp pixWid pixHigh n s e w =
      Inr \<lparr>fpath = fp, width = pixWid, height = pixHigh,
           box = [n, s, normEasting e, normEasting w]\<rparr>) = (s \<le> n \<and> n \<le> 90 \<and> - 90 \<le> s) \<and>
   NewMapTile fp pixWid pixHigh 90 (- 90) e w =
      Inr \<lparr>fpath = fp, width = pixWid, height = pixHigh,
           box = [90, - 90, normEasting e, normEasting w]\<rparr> \<and>
   NewMapTile fp pixWid pixHigh (494 / 10) 60 e w = Inl Panic \<and>
   NewMapTile fp pixWid pixHigh 91 0 e w = Inl Panic"
  by (auto simp: NewMapTile_def)

text \<open>
  C6 as stated has the construction fail for north \<open>\<le>\<close> south: equal latitudes are accepted.
\<close>

theorem NewMapTile_equal_latitudes_counterexample:
  "(10 :: real) \<le> 10 \<and>
   NewMapTile ''m.jpg'' 100 100 10 10 20 0 =
     Inr \<lparr>fpath = ''m.jpg'', width = 100, height = 100, box = [10, 10, 20, 0]\<rparr>"
  by (simp add: NewMapTile_def normEasting_def)

section \<open>Completion of a tile box\<close>

lemma finishTileBox_box:
  "box (finishTileBox tile fullMap) =
     (box tile)[south := box tile ! north -
                  (of_int (height tile) / of_int (height fullMap)) *
                    (box fullMap ! north - box fullMap ! south),
                east := box tile ! west +
                  (of_int (width tile) / of_int (width fullMap)) *
                    eastDelta (box fullMap ! east) (box fullMap ! west)]"
  by (simp add: finishTileBox_def delta_def Let_def north_def south_def east_def west_def)

lemma finishTileBox_rest:
  "fpath (finishTileBox tile fullMap) = fpath tile \<and>
   width (finishTileBox tile fullMap) = width tile \<and>
   height (finishTileBox tile fullMap) = height tile"
  by (simp add: finishTileBox_def delta_def Let_def)

text \<open>
  C2. \<open>finishTileBox tile fullMap\<close> sets the south of the tile's box to its north minus
  \<open>(height tile / height fullMap) * (north - south)\<close> of the full map, and its east to its
  west plus \<open>(width tile / width fullMap) * eastDelta east west\<close> of the full map. The north
  and the west of the box, the file path and the pixel sizes stay as they are. Nothing is
  normalized afterwards: a tile anchored at west 175 on a map from 170 to -170 gets the
  east 185. (The box has four entries, as its array type says.)
\<close>

theorem finishTileBox_frame:
  assumes "length (box tile) = 4"
  shows "box (finishTileBox tile fullMap) ! south =
           box tile ! north -
             (of_int (height tile) / of_int (height fullMap)) *
               (box fullMap ! north - box fullMap ! south) \<and>
         box (finishTileBox tile fullMap) ! east =
           box tile ! west +
             (of_int (width tile) / of_int (width fullMap)) *
               eastDelta (box fullMap ! east) (box fullMap ! west) \<and>
         box (finishTileBox tile fullMap) ! north = box tile ! north \<and>
         box (finishTileBox tile fullMap) ! west = box tile ! west \<and>
         length (box (finishTileBox tile fullMap)) = 4 \<and>
         fpath (finishTileBox tile fullMap) = fpath tile \<and>
         width (finishTileBox tile fullMap) = width tile \<and>
         height (finishTileBox tile fullMap) = height tile \<and>
         box (finishTileBox
                \<lparr>fpath = ''t.jpg'', width = 10, height = 10, box = [50, 0, 0, 175]\<rparr>
                \<lparr>fpath = ''m.jpg'', width = 20, height = 20, box = [50, 40, - 170, 170]\<rparr>)
           ! east = 185"
proof -
  have "box (finishTileBox
                \<lparr>fpath = ''t.jpg'', width = 10, height = 10, box = [50, 0, 0, 175]\<rparr>
                \<lparr>fpath = ''m.jpg'', width = 20, height = 20, box = [50, 40, - 170, 170]\<rparr>)
           ! east = 185"
    by (simp add: finishTileBox_box eastDelta_def normEasting_def
        north_def south_def east_def west_def)
  then show ?thesis
    using assms
    by (simp add: finishTileBox_box finishTileBox_rest north_def south_def east_def west_def)
qed

text \<open>The theorem at that tile: its finished box.\<close>

theorem finishTileBox_frame_witness:
  "length (box \<lparr>fpath = ''t.jpg'', width = 10, height = 10, box = [50, 0, 0, 175]\<rparr>) = 4 \<and>
   box (finishTileBox
          \<lparr>fpath = ''t.jpg'', width = 10, height = 10, box = [50, 0, 0, 175]\<rparr>
          \<lparr>fpath = ''m.jpg'', width = 20, height = 20, box = [50, 40, - 170, 170]\<rparr>)
     = [50, 45, 185, 175]"
proof -
  let ?t = "\<lparr>fpath = ''t.jpg'', width = 10, height = 10, box = [50, 0, 0, 175]\<rparr>"
  let ?m = "\<lparr>fpath = ''m.jpg'', width = 20, height = 20, box = [50, 40, - 170, 170 :: real]\<rparr>"
  have len: "length (box ?t) = 4" by simp
  have ed: "eastDelta (- 170) 170 = 20" by (simp add: eastDelta_def normEasting_def)
  have "box (finishTileBox ?t ?m) =
          [box (finishTileBox ?t ?m) ! north, box (finishTileBox ?t ?m) ! south,
           box (finishTileBox ?t ?m) ! east, box (finishTileBox ?t ?m) ! west]"
    using finishTileBox_frame[OF len, of ?m]
    by (auto simp: list_eq_iff_nth_eq north_def south_def east_def west_def less_Suc_eq numeral_eq_Suc)
  then show ?thesis
    using finishTileBox_frame[OF len, of ?m] ed
    by (simp add: north_def south_def east_def west_def)
qed

section \<open>The two copies of the pixel-size helper\<close>

text \<open>
  C9. The claim is that both copies of \<open>imageWxH\<close> return the same pair for every output
  of the form \<^verbatim>\<open>"<w> <h>"\<close>. On the output \<^verbatim>\<open>"100 200"\<close> the copy of
  \<^verbatim>\<open>src/cmd/kmz.go\<close> returns the width as the height.
\<close>

theorem imageWxH_kmz_height_is_width:
  "imageWxH True (Inr ''100 200'') = Inr (100, 200) \<and>
   imageWxH_kmz (Inr ''100 200'') = Inr (100, 100)"
  by code_simp

section \<open>The bounding-box parser\<close>

lemma parseFields_eq:
  "parseFields pf fs =
     (if \<exists>f \<in> set fs. pf f = None then Inl ParseDegrees else Inr (map (the \<circ> pf) fs))"
  by (induction fs) (auto split: option.splits sum.splits)

lemma getBox_eq:
  "getBox pf imageName =
     (let c = strings_Split imageName (CHR ''_'')
      in if length c \<noteq> 5 then Inl NameFormat
         else if \<exists>f \<in> set (degreeFields c). pf f = None then Inl ParseDegrees
         else if the (pf (c ! 1)) \<le> the (pf (c ! 2)) \<or> 90 < the (pf (c ! 1)) \<or>
                 the (pf (c ! 2)) < - 90
           then Inl LatitudeRange
         else Inr (filepath_Base (c ! 0), map (the \<circ> pf) (degreeFields c)))"
  by (simp add: getBox_def parseFields_eq Let_def degreeFields_def north_def south_def)

lemma getBox_reversed:
  "getBox parseDecimal ''Grouse-Mountain_49.336694_49.470628_-123.132056_-122.9811.jpg'' =
     Inl LatitudeRange"
  by code_simp

lemma getBox_grouse:
  "getBox parseDecimal ''Grouse-Mountain_49.470628_49.336694_-123.132056_-122.9811.jpg'' =
     Inr (''Grouse-Mountain'',
          [49470628 / 1000000, 49336694 / 1000000, - (123132056 / 1000000), - (1229811 / 10000)])"
  by code_simp

lemma lastField_vectors:
  "lastField ''-122.9811.jpg'' = ''-122.9811'' \<and> lastField ''-122.9811.tar.gz'' = ''-122.9811'' \<and>
   lastField ''-123.jpg'' = ''-123.jpg''"
  by code_simp

text \<open>
  C5. For every file name, \<open>getBox\<close> returns an error exactly when the name does not split
  into 5 parts at its underscores, or one of the four degree fields does not parse (the
  last field is first cut down to its first two dot-separated segments when it has three
  or more), or north \<open>\<le>\<close> south, or north \<open>>\<close> 90, or south \<open><\<close> -90. The name with the
  latitudes in reversed order is rejected; the name with north 49.470628 and south
  49.336694 gives the map name \<^verbatim>\<open>Grouse-Mountain\<close> and the four degrees of the name.
\<close>

theorem getBox_fails_iff:
  "(let c = strings_Split imageName (CHR ''_'')
    in isl (getBox pf imageName) =
         (length c \<noteq> 5 \<or>
          (\<exists>f \<in> set [c ! 1, c ! 2, c ! 3, lastField (c ! 4)]. pf f = None) \<or>
          the (pf (c ! 1)) \<le> the (pf (c ! 2)) \<or>
          90 < the (pf (c ! 1)) \<or>
          the (pf (c ! 2)) < - 90)) \<and>
   lastField f =
     (let s = strings_SplitN f (CHR ''.'') 3
      in if length s = 3 then s ! 0 @ ''.'' @ s ! 1 else f) \<and>
   lastField ''-122.9811.jpg'' = ''-122.9811'' \<and>
   getBox parseDecimal ''Grouse-Mountain_49.336694_49.470628_-123.132056_-122.9811.jpg'' =
     Inl LatitudeRange \<and>
   getBox parseDecimal ''Grouse-Mountain_49.470628_49.336694_-123.132056_-122.9811.jpg'' =
     Inr (''Grouse-Mountain'',
          [49470628 / 1000000, 49336694 / 1000000, - (123132056 / 1000000), - (1229811 / 10000)])"
proof -
  have "let c = strings_Split imageName (CHR ''_'')
    in isl (getBox pf imageName) =
         (length c \<noteq> 5 \<or>
          (\<exists>f \<in> set [c ! 1, c ! 2, c ! 3, lastField (c ! 4)]. pf f = None) \<or>
          the (pf (c ! 1)) \<le> the (pf (c ! 2)) \<or>
          90 < the (pf (c ! 1)) \<or>
          the (pf (c ! 2)) < - 90)"
    unfolding getBox_eq Let_def degreeFields_def by simp
  then show ?thesis
    using getBox_reversed getBox_grouse lastField_vectors
    by (simp add: lastField_def)
qed

text \<open>The theorem at a name with no underscore.\<close>

theorem getBox_fails_iff_witness:
  "length (strings_Split ''Grouse-Mountain.jpg'' (CHR ''_'')) \<noteq> 5 \<and>
   isl (getBox parseDecimal ''Grouse-Mountain.jpg'')"
proof -
  have a: "length (strings_Split ''Grouse-Mountain.jpg'' (CHR ''_'')) \<noteq> 5" by code_simp
  from a getBox_fails_iff[of "''Grouse-Mountain.jpg''" parseDecimal]
  show ?thesis by (simp add: Let_def)
qed

lemma getBox_190:
  "getBox parseDecimal ''/maps/m_50_40_190_170.5.jpg'' = Inr (''m'', [50, 40, 190, 1705 / 10])"
  by code_simp

text \<open>
  C8 as stated has the longitudes that \<open>getBox\<close> returns normalized: an east of 190 is
  returned as 190, and its normalization is -170.
\<close>

theorem getBox_not_normalized_counterexample:
  "getBox parseDecimal ''/maps/m_50_40_190_170.5.jpg'' = Inr (''m'', [50, 40, 190, 1705 / 10]) \<and>
   parseDecimal ''190'' = Some 190 \<and>
   normEasting 190 = - 170 \<and>
   [50, 40, 190, 1705 / 10] ! east \<noteq> normEasting 190"
proof -
  have "parseDecimal ''190'' = Some 190" by code_simp
  moreover have "normEasting 190 = - 170" by (simp add: normEasting_def math_Mod_def trunc_def)
  ultimately show ?thesis using getBox_190 by (simp add: east_def)
qed

text \<open>
  C8, as amended. When \<open>getBox\<close> accepts a file name, the map name is the base name of
  the first underscore-separated part and the four degrees are the parsed fields as they
  are, the east and the west not normalized. They are normalized when \<open>NewMapTile\<close>
  builds the map tile from them, which it always does for a box that \<open>getBox\<close> returns.
\<close>

theorem getBox_result:
  assumes "getBox pf imageName = Inr (base, bx)"
  shows "(let c = strings_Split imageName (CHR ''_'')
          in base = filepath_Base (c ! 0) \<and>
             pf (c ! 1) = Some (bx ! north) \<and>
             pf (c ! 2) = Some (bx ! south) \<and>
             pf (c ! 3) = Some (bx ! east) \<and>
             pf (lastField (c ! 4)) = Some (bx ! west)) \<and>
         length bx = 4 \<and>
         NewMapTile fp pixWid pixHigh (bx ! north) (bx ! south) (bx ! east) (bx ! west) =
           Inr \<lparr>fpath = fp, width = pixWid, height = pixHigh,
                box = [bx ! north, bx ! south, normEasting (bx ! east), normEasting (bx ! west)]\<rparr>"
  using assms unfolding getBox_eq Let_def degreeFields_def NewMapTile_def
  by (auto simp: north_def south_def east_def west_def split: if_splits)

text \<open>The theorem at the name with the east of 190.\<close>

theorem getBox_result_witness:
  "getBox parseDecimal ''/maps/m_50_40_190_170.5.jpg'' = Inr (''m'', [50, 40, 190, 1705 / 10]) \<and>
   NewMapTile ''f.jpg'' 10 10 50 40 190 (1705 / 10) =
     Inr \<lparr>fpath = ''f.jpg'', width = 10, height = 10, box = [50, 40, - 170, 1705 / 10]\<rparr>"
proof -
  have n: "normEasting 190 = - 170 \<and> normEasting (1705 / 10) = 1705 / 10"
    by (simp add: normEasting_def math_Mod_def trunc_def)
  from getBox_result[OF getBox_190, of "''f.jpg''" 10 10] n getBox_190
  show ?thesis by (simp add: north_def south_def east_def west_def)
qed

section \<open>Properties of the walk\<close>

lemma NewMapTileFromFile_anchor:
  assumes "0 \<le> cn" and "cn \<le> 90"
  shows "NewMapTileFromFile (Inr (w, h)) fp cn 0 0 cw =
           Inr \<lparr>fpath = fp, width = w, height = h, box = [cn, 0, 0, normEasting cw]\<rparr>"
  using assms by (simp add: NewMapTileFromFile_def NewMapTile_def normEasting_def)

lemma finishTileBox_anchor:
  "finishTileBox \<lparr>fpath = fp, width = w, height = h, box = [cn, 0, 0, normEasting cw]\<rparr> p =
     tileAt p fp w h cn cw"
  by (simp add: finishTileBox_def delta_def tileAt_def Let_def north_def south_def east_def west_def)

lemma tileLoop_step:
  assumes "0 \<le> cn" and "cn \<le> 90"
  shows "tileLoop p ((fp, Inr (w, h)) # tfs) ws cn cw =
           (case (if ws + w \<ge> width p
                  then tileLoop p tfs 0 (box (tileAt p fp w h cn cw) ! south) (box p ! west)
                  else tileLoop p tfs (ws + w) cn (box (tileAt p fp w h cn cw) ! east)) of
              Inl err \<Rightarrow> Inl err
            | Inr tiles \<Rightarrow> Inr (tileAt p fp w h cn cw # tiles))"
proof -
  have wd: "width (tileAt p fp w h cn cw) = w" by (simp add: tileAt_def)
  show ?thesis
    by (simp add: NewMapTileFromFile_anchor[OF assms] finishTileBox_anchor Let_def wd)
qed

lemma tileAt_box:
  "box (tileAt p fp w h cn cw) ! north = cn \<and>
   box (tileAt p fp w h cn cw) ! south =
     cn - (of_int h / of_int (height p)) * (box p ! north - box p ! south) \<and>
   box (tileAt p fp w h cn cw) ! east =
     normEasting cw + (of_int w / of_int (width p)) * eastDelta (box p ! east) (box p ! west) \<and>
   box (tileAt p fp w h cn cw) ! west = normEasting cw"
  by (simp add: tileAt_def north_def south_def east_def west_def)

lemma tileLoop_Inr:
  assumes geo: "geoBoxOK (box p)" and W: "0 < width p" and H: "0 < height p"
    and ps: "0 \<le> box p ! south"
  shows "map snd tfs = map Inr sizes \<Longrightarrow>
         rowsFit (width p) ws sizes \<Longrightarrow> heightsFit (width p) (height p) ws hs sizes \<Longrightarrow>
         cn \<le> box p ! north \<Longrightarrow>
         (of_int (height p - hs) / of_int (height p)) * (box p ! north - box p ! south)
           \<le> cn - box p ! south \<Longrightarrow>
         \<exists>tiles. tileLoop p tfs ws cn cw = Inr tiles \<and>
                 length tiles = length sizes \<and>
                 list_all latOK tiles \<and>
                 sharedEdges (rowEnds (width p) ws sizes) tiles \<and>
                 (case tiles of [] \<Rightarrow> True | t # ts \<Rightarrow> box t ! west = normEasting cw)"
proof (induction sizes arbitrary: tfs ws hs cn cw)
  case Nil
  then show ?case by simp
next
  case (Cons wh xs)
  obtain w h where wh: "wh = (w, h)" by (cases wh)
  from Cons.prems(1) wh obtain fp tfs' where
    files: "tfs = (fp, Inr (w, h)) # tfs'" and files': "map snd tfs' = map Inr xs"
    by (cases tfs) auto
  let ?d = "box p ! north - box p ! south"
  let ?H = "real_of_int (height p)"
  let ?t = "tileAt p fp w h cn cw"
  let ?ws = "if ws + w < width p then ws + w else 0"
  from geo have d: "0 < ?d" and n90: "box p ! north \<le> 90" by (simp_all add: geoBoxOK_def)
  from H have Hr: "0 < ?H" by simp
  from Cons.prems(2) wh have w: "0 < w" and h: "0 < h" and fit: "ws + w \<le> width p"
    and rows: "rowsFit (width p) ?ws xs" by simp_all
  from Cons.prems(3) wh have hh: "hs + h \<le> height p" by simp
  have "real_of_int (height p - hs) = real_of_int (height p - (hs + h)) + real_of_int h"
    by simp
  then have split: "real_of_int (height p - hs) / ?H * ?d =
                 real_of_int (height p - (hs + h)) / ?H * ?d + real_of_int h / ?H * ?d"
    by (simp only: add_divide_distrib distrib_right)
  have hd: "0 \<le> real_of_int h / ?H * ?d" using h Hr d by simp
  have rest: "0 \<le> real_of_int (height p - (hs + h)) / ?H * ?d" using hh Hr d by simp
  from Cons.prems(5) split hd rest have cn_lo: "box p ! south \<le> cn" by linarith
  with ps have cn0: "0 \<le> cn" by linarith
  from Cons.prems(4) n90 have cn90: "cn \<le> 90" by linarith
  have tn: "box ?t ! north = cn"
    and ts: "box ?t ! south = cn - real_of_int h / ?H * ?d"
    and tw: "box ?t ! west = normEasting cw"
    using tileAt_box[of p fp w h cn cw] by simp_all
  from Cons.prems(5) split have s_lo:
    "real_of_int (height p - (hs + h)) / ?H * ?d \<le> box ?t ! south - box p ! south"
    unfolding ts by linarith
  with rest ps have s0: "0 \<le> box ?t ! south" by linarith
  from hd have s_le: "box ?t ! south \<le> cn" unfolding ts by linarith
  have lat: "latOK ?t" unfolding latOK_def tn using s0 s_le cn0 cn90 by linarith
  show ?case
  proof (cases "ws + w < width p")
    case True
    from Cons.prems(3) wh True have hf: "heightsFit (width p) (height p) (ws + w) hs xs" by simp
    from rows True have rows': "rowsFit (width p) (ws + w) xs" by simp
    from Cons.IH[OF files' rows' hf Cons.prems(4) Cons.prems(5), of "box ?t ! east"]
    obtain tiles where
      run: "tileLoop p tfs' (ws + w) cn (box ?t ! east) = Inr tiles"
      and len: "length tiles = length xs" and all: "list_all latOK tiles"
      and sh: "sharedEdges (rowEnds (width p) (ws + w) xs) tiles"
      and hdw: "(case tiles of [] \<Rightarrow> True | t # ts \<Rightarrow> box t ! west = normEasting (box ?t ! east))"
      by blast
    have "tileLoop p tfs ws cn cw = Inr (?t # tiles)"
      unfolding files tileLoop_step[OF cn0 cn90] using True run by simp
    moreover have "sharedEdges (rowEnds (width p) ws (wh # xs)) (?t # tiles)"
      using sh hdw True wh by (cases tiles) simp_all
    ultimately show ?thesis using len all lat tw by simp
  next
    case False
    from Cons.prems(3) wh False have hf: "heightsFit (width p) (height p) 0 (hs + h) xs" by simp
    from rows False have rows': "rowsFit (width p) 0 xs" by simp
    from s_le Cons.prems(4) have sn: "box ?t ! south \<le> box p ! north" by linarith
    from Cons.IH[OF files' rows' hf sn s_lo, of "box p ! west"]
    obtain tiles where
      run: "tileLoop p tfs' 0 (box ?t ! south) (box p ! west) = Inr tiles"
      and len: "length tiles = length xs" and all: "list_all latOK tiles"
      and sh: "sharedEdges (rowEnds (width p) 0 xs) tiles"
      by blast
    have "tileLoop p tfs ws cn cw = Inr (?t # tiles)"
      unfolding files tileLoop_step[OF cn0 cn90] using False run by simp
    moreover have "sharedEdges (rowEnds (width p) ws (wh # xs)) (?t # tiles)"
      using sh False wh by (cases tiles) simp_all
    ultimately show ?thesis using len all lat tw by simp
  qed
qed


lemma tileFilesOf_sizes: "map snd (tileFilesOf sizes) = map Inr sizes"
  by (simp add: tileFilesOf_def comp_def)

text \<open>
  North of the equator the walk completes. Let the full map have a box with the
  invariants, positive pixel sizes and a south of at least 0, and let the tiles have
  positive pixel sizes, in raster order, such that the widths of every row add up to the
  full width and the heights stay inside the full height (\<open>heightsFit\<close>). Then the walk
  returns one tile per size; every tile has south \<open>\<le>\<close> north and both in \<open>[-90, 90]\<close>; and
  for two consecutive tiles of one row, the west of the later one is the normalized east of
  the earlier one.
\<close>

lemma tileWalk_northern:
  assumes "geoBoxOK (box p)" and "0 < width p" and "0 < height p"
    and "0 \<le> box p ! south"
    and "map snd tfs = map Inr sizes"
    and "rowsFit (width p) 0 sizes"
    and "heightsFit (width p) (height p) 0 0 sizes"
  shows "\<exists>tiles. tileWalk p tfs = Inr tiles \<and>
                 length tiles = length sizes \<and>
                 list_all latOK tiles \<and>
                 sharedEdges (rowEnds (width p) 0 sizes) tiles"
proof -
  from assms(3) have "real_of_int (height p - 0) / real_of_int (height p) = 1" by simp
  then have start: "real_of_int (height p - 0) / real_of_int (height p) *
                 (box p ! north - box p ! south) \<le> box p ! north - box p ! south"
    by (simp only: mult_1 order_refl)
  from tileLoop_Inr[OF assms(1-4) assms(5) assms(6) assms(7) order_refl start, of "box p ! west"]
  show ?thesis unfolding tileWalk_def by blast
qed

text \<open>
  Two rows of three tiles across the antimeridian. The east of the second tile is beyond
  180 and the west of the third tile is its normalization.
\<close>

lemma tileWalk_2x3:
  "tileWalk \<lparr>fpath = ''m.jpg'', width = 30, height = 20, box = [50, 40, - 170, 170]\<rparr>
     (tileFilesOf [(10, 10), (10, 10), (10, 10), (10, 10), (10, 10), (10, 10)]) =
   Inr [\<lparr>fpath = ''tile.jpg'', width = 10, height = 10, box = [50, 45, 530 / 3, 170]\<rparr>,
        \<lparr>fpath = ''tile.jpg'', width = 10, height = 10, box = [50, 45, 550 / 3, 530 / 3]\<rparr>,
        \<lparr>fpath = ''tile.jpg'', width = 10, height = 10, box = [50, 45, - 170, - (530 / 3)]\<rparr>,
        \<lparr>fpath = ''tile.jpg'', width = 10, height = 10, box = [45, 40, 530 / 3, 170]\<rparr>,
        \<lparr>fpath = ''tile.jpg'', width = 10, height = 10, box = [45, 40, 550 / 3, 530 / 3]\<rparr>,
        \<lparr>fpath = ''tile.jpg'', width = 10, height = 10, box = [45, 40, - 170, - (530 / 3)]\<rparr>]"
  by code_simp

text \<open>
  C1. The claim is that the walk produces, for every full map whose box has the invariants
  and every grid of positive tile sizes whose widths fill the rows, a box for every tile
  with south \<open>\<le>\<close> north and both in \<open>[-90, 90]\<close>. The loop builds every tile with
  \<^verbatim>\<open>NewMapTileFromFile(.., currNorth, 0, 0, currWest)\<close>, and \<open>NewMapTile\<close> panics when the
  north it is given is below the south it is given, here 0. So the walk panics instead of
  producing the boxes as soon as a row starts south of the equator: at the first tile of
  the full map of 10000 by 10000 pixels with north -50, south -60, east 10 and west 0 cut
  into 10 rows of 10 tiles of 1000 by 1000 pixels, and at the third row of a full map of 20
  by 40 pixels with north 10 and south -30 cut into 4 rows of 2 tiles of 10 by 10 pixels.
  Both boxes have the invariants and both grids fill the full map exactly.
\<close>

theorem tileWalk_southern_panics:
  "geoBoxOK [- 50, - 60, 10, 0] \<and>
   rowsFit 10000 0 (replicate 100 (1000, 1000)) \<and>
   heightsFit 10000 10000 0 0 (replicate 100 (1000, 1000)) \<and>
   tileWalk \<lparr>fpath = ''m.jpg'', width = 10000, height = 10000, box = [- 50, - 60, 10, 0]\<rparr>
     (tileFilesOf (replicate 100 (1000, 1000))) = Inl Panic \<and>
   geoBoxOK [10, - 30, 10, 0] \<and>
   rowsFit 20 0 (replicate 8 (10, 10)) \<and>
   heightsFit 20 40 0 0 (replicate 8 (10, 10)) \<and>
   tileWalk \<lparr>fpath = ''m.jpg'', width = 20, height = 40, box = [10, - 30, 10, 0]\<rparr>
     (tileFilesOf (replicate 8 (10, 10))) = Inl Panic"
proof -
  have g: "geoBoxOK [- 50, - 60, 10, 0] \<and> geoBoxOK [10, - 30, 10, 0]"
    by (simp add: geoBoxOK_def north_def south_def east_def west_def)
  have r1: "rowsFit 10000 0 (replicate 100 (1000, 1000))" by code_simp
  have h1: "heightsFit 10000 10000 0 0 (replicate 100 (1000, 1000))" by code_simp
  have w1: "tileWalk
      \<lparr>fpath = ''m.jpg'', width = 10000, height = 10000, box = [- 50, - 60, 10, 0]\<rparr>
      (tileFilesOf (replicate 100 (1000, 1000))) = Inl Panic"
    by code_simp
  have r2: "rowsFit 20 0 (replicate 8 (10, 10))" by code_simp
  have h2: "heightsFit 20 40 0 0 (replicate 8 (10, 10))" by code_simp
  have w2: "tileWalk \<lparr>fpath = ''m.jpg'', width = 20, height = 40, box = [10, - 30, 10, 0]\<rparr>
      (tileFilesOf (replicate 8 (10, 10))) = Inl Panic"
    by code_simp
  from g r1 h1 w1 r2 h2 w2 show ?thesis by (simp only: simp_thms)
qed

text \<open>
  C7. The full map of 10000 by 10000 pixels with north 50, south 40, east 10 and west 0, cut
  into 10 rows of 10 tiles of 1000 by 1000 pixels: the walk returns 100 tiles, and the last
  one has the south 40 and the east 10 (exactly, in real arithmetic).
\<close>

theorem tileWalk_10x10:
  "(case tileWalk \<lparr>fpath = ''m.jpg'', width = 10000, height = 10000, box = [50, 40, 10, 0]\<rparr>
           (tileFilesOf (replicate 100 (1000, 1000))) of
      Inl err \<Rightarrow> False
    | Inr tiles \<Rightarrow>
        length tiles = 100 \<and> box (last tiles) ! south = 40 \<and> box (last tiles) ! east = 10)"
  by code_simp

end
